theory Spec2Isabelle
  imports Main "HOL-Library.AList"
begin

section \<open>Errors\<close>

text \<open>
  Go \<^verbatim>\<open>error\<close> values, as far as the package builds and inspects them:
  \<^item> \<open>ErrorString s\<close>: the result of \<^verbatim>\<open>errors.New(s)\<close> or of \<^verbatim>\<open>fmt.Errorf\<close> without
    \<^verbatim>\<open>%w\<close>; it wraps nothing;
  \<^item> \<open>CmdError log err code\<close>: a \<^verbatim>\<open>*command.Error{Log, Err, Code}\<close>; its \<^verbatim>\<open>Unwrap\<close>
    returns \<open>Err\<close>;
  \<^item> \<open>JoinError es\<close>: the result of \<^verbatim>\<open>errors.Join\<close>, whose \<^verbatim>\<open>Unwrap\<close> returns the list;
  \<^item> \<open>CopyError results\<close>: the \<^verbatim>\<open>*copyError\<close> of \<^verbatim>\<open>Copy\<close>, one \<open>(cmd, err)\<close> per edge.

  A nil error is \<open>None\<close> of \<open>error option\<close>. Go compares errors by identity; the model
  compares them by value, so two sentinels are the same error exactly when they carry
  the same text.
\<close>

datatype error =
    ErrorString string
  | CmdError (Log: string) (Err: "error option") (Code: int)
  | JoinError "error list"
  | CopyError "(string \<times> error option) list"

definition EOF :: error where
  "EOF = ErrorString ''EOF''"

definition ErrClosed :: error where
  "ErrClosed = ErrorString ''command: write to closed buffer''"

definition ErrReadOnly :: error where
  "ErrReadOnly = ErrorString ''command: write to read-only buffer''"

text \<open>\<^verbatim>\<open>errors.Join\<close>: nil arguments are dropped; nil when nothing is left.\<close>

fun non_nil :: "error option list \<Rightarrow> error list" where
  "non_nil [] = []"
| "non_nil (None # errs) = non_nil errs"
| "non_nil (Some e # errs) = e # non_nil errs"

definition errors_Join :: "error option list \<Rightarrow> error option" where
  "errors_Join errs = (case non_nil errs of [] \<Rightarrow> None | e # es \<Rightarrow> Some (JoinError (e # es)))"

text \<open>\<^verbatim>\<open>(*copyError).Unwrap\<close>: the non-nil errors of the results, in edge order.\<close>

fun copyError_Unwrap :: "(string \<times> error option) list \<Rightarrow> error list" where
  "copyError_Unwrap [] = []"
| "copyError_Unwrap ((cmd, None) # results) = copyError_Unwrap results"
| "copyError_Unwrap ((cmd, Some e) # results) = e # copyError_Unwrap results"


lemma size_list_copyError_Unwrap:
  "size_list size (copyError_Unwrap rs) \<le> size_list (size_prod (\<lambda>x. 0) (size_option size)) rs"
  by (induction rs rule: copyError_Unwrap.induct) auto


text \<open>
  \<^verbatim>\<open>errors.As(err, &cmdErr)\<close> with \<^verbatim>\<open>cmdErr *Error\<close>: the first \<^verbatim>\<open>*Error\<close> of the chain in
  the same depth-first order, or \<open>None\<close> when \<^verbatim>\<open>As\<close> reports false.
\<close>

function errors_As :: "error \<Rightarrow> error option"
  and errors_As_list :: "error list \<Rightarrow> error option" where
  "errors_As (ErrorString s) = None"
| "errors_As (CmdError l c k) = Some (CmdError l c k)"
| "errors_As (JoinError es) = errors_As_list es"
| "errors_As (CopyError rs) = errors_As_list (copyError_Unwrap rs)"
| "errors_As_list [] = None"
| "errors_As_list (e # es) =
     (case errors_As e of Some found \<Rightarrow> Some found | None \<Rightarrow> errors_As_list es)"
  by pat_completeness auto
termination
  by (relation "measure (case_sum size (size_list size))")
     (auto simp: less_Suc_eq_le size_list_copyError_Unwrap)

text \<open>
  \<^verbatim>\<open>NotFound(err)\<close>: false when no \<^verbatim>\<open>*Error\<close> is in the chain (also for nil); otherwise
  \<^verbatim>\<open>cmdErr.Err != nil && cmdErr.Code == 0\<close>.
\<close>

definition NotFound :: "error option \<Rightarrow> bool" where
  "NotFound err =
     (case err of
        None \<Rightarrow> False
      | Some e \<Rightarrow>
          (case errors_As e of
             None \<Rightarrow> False
           | Some cmdErr \<Rightarrow> Err cmdErr \<noteq> None \<and> Code cmdErr = 0))"

section \<open>Environment variables carried by the context\<close>

text \<open>
  A Go \<^verbatim>\<open>map[string]string\<close> is \<open>None\<close> when nil and \<open>Some f\<close> otherwise. The context holds,
  under \<^verbatim>\<open>envKey{}\<close>, no value at all, an untyped nil (what \<^verbatim>\<open>WithoutEnv\<close> stores), or a
  value of type \<^verbatim>\<open>map[string]string\<close>; everything else it carries is \<open>other\<close>.
\<close>

type_synonym gomap = "(string \<rightharpoonup> string) option"

datatype env_value = NoValue | NilValue | MapValue gomap

record 'a Context =
  envValue :: env_value
  other :: 'a

definition lookup :: "gomap \<Rightarrow> string \<Rightarrow> string option" where
  "lookup mp key = (case mp of None \<Rightarrow> None | Some f \<Rightarrow> f key)"

definition maps_Copy :: "(string \<rightharpoonup> string) \<Rightarrow> gomap \<Rightarrow> (string \<rightharpoonup> string)" where
  "maps_Copy dst src = (case src of None \<Rightarrow> dst | Some f \<Rightarrow> dst ++ f)"

definition Envs :: "'a Context \<Rightarrow> gomap" where
  "Envs ctx = (case envValue ctx of MapValue env \<Rightarrow> env | NilValue \<Rightarrow> None | NoValue \<Rightarrow> None)"

definition WithEnv :: "'a Context \<Rightarrow> gomap \<Rightarrow> 'a Context" where
  "WithEnv ctx env =
     (let val = (case Envs ctx of None \<Rightarrow> Map.empty | Some f \<Rightarrow> f)
      in ctx\<lparr>envValue := MapValue (Some (maps_Copy val env))\<rparr>)"

definition WithoutEnv :: "'a Context \<Rightarrow> 'a Context" where
  "WithoutEnv ctx = (if Envs ctx = None then ctx else ctx\<lparr>envValue := NilValue\<rparr>)"

section \<open>Execution units\<close>

text \<open>
  A \<^verbatim>\<open>Buffer\<close> is an interface value. \<open>Fail err\<close> is the buffer of \<^verbatim>\<open>Fail(err)\<close>: every Read
  returns \<open>(0, err)\<close> and it has no other method. \<open>Cmd s rd wr cl lg\<close> is any other unit, a
  deterministic state machine: \<open>s\<close> its state, \<open>rd\<close> its \<^verbatim>\<open>Read\<close>, and \<open>wr\<close>, \<open>cl\<close>, \<open>lg\<close> its
  \<^verbatim>\<open>Write\<close>, \<^verbatim>\<open>Close\<close> and the diagnostics it has sent to the sink set with \<^verbatim>\<open>Log\<close>, each
  \<open>None\<close> when the unit lacks the method. A Read returns the bytes it delivered and its
  error; the capacity of the slice passed in is not modelled.
\<close>

datatype 's Buffer =
    Fail error
  | Cmd 's
        "'s \<Rightarrow> (string \<times> error option) \<times> 's"
        "('s \<Rightarrow> string \<Rightarrow> (nat \<times> error option) \<times> 's) option"
        "('s \<Rightarrow> error option \<times> 's) option"
        "('s \<Rightarrow> string) option"

fun Buffer_Read :: "'s Buffer \<Rightarrow> (string \<times> error option) \<times> 's Buffer" where
  "Buffer_Read (Fail err) = (([], Some err), Fail err)"
| "Buffer_Read (Cmd s rd wr cl lg) = (case rd s of (res, s') \<Rightarrow> (res, Cmd s' rd wr cl lg))"

text \<open>
  The type assertions \<^verbatim>\<open>b.(io.Writer)\<close> and \<^verbatim>\<open>b.(io.Closer)\<close>: \<open>None\<close> when the assertion
  fails, otherwise the method, applied to the unit.
\<close>

fun as_Writer :: "'s Buffer \<Rightarrow> (string \<Rightarrow> (nat \<times> error option) \<times> 's Buffer) option" where
  "as_Writer (Fail err) = None"
| "as_Writer (Cmd s rd None cl lg) = None"
| "as_Writer (Cmd s rd (Some wr) cl lg) =
     Some (\<lambda>p. case wr s p of (res, s') \<Rightarrow> (res, Cmd s' rd (Some wr) cl lg))"

fun as_Closer :: "'s Buffer \<Rightarrow> (error option \<times> 's Buffer) option" where
  "as_Closer (Fail err) = None"
| "as_Closer (Cmd s rd wr None lg) = None"
| "as_Closer (Cmd s rd wr (Some cl) lg) =
     Some (case cl s of (res, s') \<Rightarrow> (res, Cmd s' rd wr (Some cl) lg))"

text \<open>\<^verbatim>\<open>buf.(WriteBuffer)\<close> succeeds when the unit has Read, Write and Close.\<close>

definition is_WriteBuffer :: "'s Buffer \<Rightarrow> bool" where
  "is_WriteBuffer buf = (as_Writer buf \<noteq> None \<and> as_Closer buf \<noteq> None)"

text \<open>What a \<^verbatim>\<open>LogBuffer\<close> has written to its sink; empty for a unit without \<^verbatim>\<open>Log\<close>.\<close>

fun logged :: "'s Buffer \<Rightarrow> string" where
  "logged (Fail err) = []"
| "logged (Cmd s rd wr cl None) = []"
| "logged (Cmd s rd wr cl (Some lg)) = lg s"

section \<open>Machines and the command router\<close>

text \<open>
  A \<^verbatim>\<open>Machine\<close> is a \<^verbatim>\<open>MachineFunc\<close> (which also stands for every backend that is no
  router) or a \<^verbatim>\<open>*Sh\<close>. A machine instantiates a fresh unit on every call. \<open>Sh\<close> keeps the
  fields that routing reads: \<open>routes\<close> (the \<^verbatim>\<open>zeros.Map\<close>, as an association list read with
  \<open>map_of\<close> and written with \<open>AList.update\<close>), the core machine \<open>m\<close>, which is not nil, and
  \<open>fallback\<close>. \<^verbatim>\<open>(*Sh).Command\<close> first calls \<^verbatim>\<open>sh.init\<close>, which probes the core to fill the
  caches \<^verbatim>\<open>os\<close>, \<^verbatim>\<open>arch\<close> and \<^verbatim>\<open>fsys\<close>; routing never reads them, and the probing and the
  caches are left out: \<open>Sh_Command\<close> is the call once \<^verbatim>\<open>init\<close> has returned. Where Go mutates
  a router in place, the model returns the new router. Machines are values here, so a
  machine cannot contain itself: every nesting of routers is finite.
\<close>

datatype ('c, 's) Machine =
    MachineFunc "'c \<Rightarrow> string list \<Rightarrow> 's Buffer"
  | ShMachine "('c, 's) Sh"
and ('c, 's) Sh =
    Sh (routes: "(string \<times> ('c, 's) Machine) list") (m: "('c, 's) Machine") (fallback: bool)

lemma size_map_of:
  "map_of rs k = Some x \<Longrightarrow> size x \<le> size_list (size_prod (\<lambda>x. 0) size) rs"
  by (induction rs) (auto split: if_splits)

text \<open>
  \<open>Command\<close> is the interface call \<^verbatim>\<open>m.Command(ctx, args...)\<close>; \<open>Sh_Command\<close> and
  \<open>Sh_command\<close> are \<^verbatim>\<open>(*Sh).Command\<close> and \<^verbatim>\<open>(*Sh).command\<close>.
\<close>

function Command :: "('c, 's) Machine \<Rightarrow> 'c \<Rightarrow> string list \<Rightarrow> 's Buffer"
  and Sh_Command :: "('c, 's) Sh \<Rightarrow> 'c \<Rightarrow> string list \<Rightarrow> 's Buffer"
  and Sh_command :: "('c, 's) Sh \<Rightarrow> bool \<Rightarrow> 'c \<Rightarrow> string list \<Rightarrow> 's Buffer" where
  "Command (MachineFunc f) ctx args = f ctx args"
| "Command (ShMachine sh) ctx args = Sh_Command sh ctx args"
| "Sh_Command (Sh rs core fb) ctx args = Sh_command (Sh rs core fb) fb ctx args"
| "Sh_command (Sh rs core fb) fallback' ctx args =
     (if length args = 0 then Fail (ErrorString ''no command specified'')
      else let cmdName = hd args in
        (case map_of rs cmdName of
           Some machine \<Rightarrow> Command machine ctx args
         | None \<Rightarrow>
             if fallback' then Command core ctx args
             else Fail (CmdError [] (Some (ErrorString (''command not found: '' @ cmdName))) 0)))"
  by pat_completeness auto
termination
  by (relation "measure (\<lambda>x. case x of
          Inl (mach, _) \<Rightarrow> 3 * size mach
        | Inr (Inl (sh, _)) \<Rightarrow> 3 * size sh + 2
        | Inr (Inr (sh, _)) \<Rightarrow> 3 * size sh + 1)")
     (auto dest: size_map_of)

definition Sh_Handle :: "('c, 's) Sh \<Rightarrow> string \<Rightarrow> ('c, 's) Machine \<Rightarrow> ('c, 's) Sh" where
  "Sh_Handle sh cmd machine = Sh (AList.update cmd machine (routes sh)) (m sh) (fallback sh)"

definition Sh_Unshell :: "('c, 's) Sh \<Rightarrow> ('c, 's) Machine" where
  "Sh_Unshell sh = m sh"

definition Shell :: "('c, 's) Machine \<Rightarrow> string list \<Rightarrow> ('c, 's) Sh" where
  "Shell core commands = foldl (\<lambda>sh cmd. Sh_Handle sh cmd (Sh_Unshell sh)) (Sh [] core False) commands"

fun Handle :: "('c, 's) Machine \<Rightarrow> string \<Rightarrow> ('c, 's) Machine \<Rightarrow> ('c, 's) Machine" where
  "Handle (ShMachine sh) cmd handler = ShMachine (Sh_Handle sh cmd handler)"
| "Handle (MachineFunc f) cmd handler =
     (let sh = Shell (MachineFunc f) [];
          sh = Sh (routes sh) (m sh) True
      in ShMachine (Sh_Handle sh cmd handler))"

text \<open>
  The \<^verbatim>\<open>Unsheller\<close> assertion followed by the call: \<open>None\<close> when the machine is not an
  \<^verbatim>\<open>Unsheller\<close>, otherwise what \<^verbatim>\<open>Unshell()\<close> returns. Only \<^verbatim>\<open>*Sh\<close> implements it.
\<close>

fun as_Unsheller :: "('c, 's) Machine \<Rightarrow> ('c, 's) Machine option" where
  "as_Unsheller (MachineFunc f) = None"
| "as_Unsheller (ShMachine sh) = Some (Sh_Unshell sh)"

definition Unshell :: "('c, 's) Machine \<Rightarrow> ('c, 's) Machine" where
  "Unshell mach = (case as_Unsheller mach of Some unshelled \<Rightarrow> unshelled | None \<Rightarrow> mach)"

section \<open>Read and the probing loop\<close>

text \<open>
  \<^verbatim>\<open>strings.TrimRightFunc(result, unicode.IsSpace)\<close> on bytes: the six ASCII white-space
  characters are trimmed. The Unicode spaces outside ASCII, which Go also trims, are not
  modelled.
\<close>

definition IsSpace :: "char \<Rightarrow> bool" where
  "IsSpace c = (let n = (of_char c :: nat) in (9 \<le> n \<and> n \<le> 13) \<or> n = 32)"

definition TrimRight_space :: "string \<Rightarrow> string" where
  "TrimRight_space s = rev (dropWhile IsSpace (rev s))"

text \<open>
  \<^verbatim>\<open>Read\<close> stores the captured diagnostics in the \<^verbatim>\<open>*Error\<close> that \<^verbatim>\<open>errors.As\<close> finds
  (\<^verbatim>\<open>e.Log = buf.Bytes()\<close>, through the pointer). \<open>set_Log lg err\<close> is the chain after that
  assignment: the first \<^verbatim>\<open>*Error\<close> in \<^verbatim>\<open>As\<close> order carries \<open>lg\<close>, the rest is unchanged.
\<close>

fun set_Log :: "string \<Rightarrow> error \<Rightarrow> error"
  and set_Log_list :: "string \<Rightarrow> error list \<Rightarrow> error list"
  and set_Log_results :: "string \<Rightarrow> (string \<times> error option) list \<Rightarrow> (string \<times> error option) list" where
  "set_Log lg (ErrorString s) = ErrorString s"
| "set_Log lg (CmdError l c k) = CmdError lg c k"
| "set_Log lg (JoinError es) = JoinError (set_Log_list lg es)"
| "set_Log lg (CopyError rs) = CopyError (set_Log_results lg rs)"
| "set_Log_list lg [] = []"
| "set_Log_list lg (e # es) =
     (if errors_As e = None then e # set_Log_list lg es else set_Log lg e # es)"
| "set_Log_results lg [] = []"
| "set_Log_results lg ((cmd, None) # rs) = (cmd, None) # set_Log_results lg rs"
| "set_Log_results lg ((cmd, Some e) # rs) =
     (if errors_As e = None then (cmd, Some e) # set_Log_results lg rs
      else (cmd, Some (set_Log lg e)) # rs)"

text \<open>
  \<^verbatim>\<open>io.ReadAll\<close>: Read until an error; \<^verbatim>\<open>io.EOF\<close> becomes nil. A unit that never reports an
  error or end of stream keeps the loop running: the result is \<open>None\<close>.
\<close>

partial_function (option) io_ReadAll ::
  "'s Buffer \<Rightarrow> string \<Rightarrow> ((string \<times> error option) \<times> 's Buffer) option" where
  "io_ReadAll r b =
     (case Buffer_Read r of
        ((p, None), r') \<Rightarrow> io_ReadAll r' (b @ p)
      | ((p, Some err), r') \<Rightarrow> Some ((b @ p, if err = EOF then None else Some err), r'))"

text \<open>
  \<^verbatim>\<open>Read(ctx, m, args...)\<close>. The line written to the \<^verbatim>\<open>Trace\<close> sink is not part of the
  model. \<open>None\<close> when reading the unit never ends.
\<close>

definition Read :: "'c \<Rightarrow> ('c, 's) Machine \<Rightarrow> string list \<Rightarrow> (string \<times> error option) option" where
  "Read ctx mach args =
     (let r = Command mach ctx args in
      case io_ReadAll r [] of
        None \<Rightarrow> None
      | Some ((out, err), r') \<Rightarrow>
          let result = TrimRight_space out;
              buf = logged r'
          in Some (result,
                   case err of
                     None \<Rightarrow> None
                   | Some e \<Rightarrow> if buf \<noteq> [] then Some (set_Log buf e) else Some e))"

text \<open>
  \<^verbatim>\<open>probeRead\<close>: the \<^verbatim>\<open>for\<close> loop that replaces \<open>m\<close> by \<^verbatim>\<open>u.Unshell()\<close> after a not-found
  result. \<open>None\<close> when the loop, or a Read inside it, does not return.
\<close>

partial_function (option) probeRead ::
  "'c \<Rightarrow> ('c, 's) Machine \<Rightarrow> string list \<Rightarrow> (string \<times> error option) option" where
  "probeRead ctx mach args =
     (case Read ctx mach args of
        None \<Rightarrow> None
      | Some (output, err) \<Rightarrow>
          if err = None \<or> \<not> NotFound err then Some (output, err)
          else (case as_Unsheller mach of
                  Some unshelled \<Rightarrow> probeRead ctx unshelled args
                | None \<Rightarrow> Some (output, err)))"

text \<open>The machines the loop can visit: the machine itself, then one layer down, and so on.\<close>

fun layers :: "('c, 's) Machine \<Rightarrow> ('c, 's) Machine list" where
  "layers (MachineFunc f) = [MachineFunc f]"
| "layers (ShMachine (Sh rs core fb)) = ShMachine (Sh rs core fb) # layers core"

section \<open>Lifecycle wrappers\<close>

text \<open>
  Each wrapper keeps, beside the fields of the Go struct, the calls it has made on its
  unit (\<open>r_calls\<close>, \<open>w_calls\<close>, \<open>s_calls\<close>): what a recording test double would see. The
  mutex only serialises the flag updates; an operation of the caller is one step here,
  and the Reads of the Writer's drain task are steps of their own.
\<close>

datatype call = CallRead | CallWrite string | CallClose

subsection \<open>Reader\<close>

text \<open>
  \<open>cancel\<close> says that \<^verbatim>\<open>r.cancel\<close> is not nil, \<open>canceled\<close> that the scope derived by
  \<^verbatim>\<open>context.WithCancel\<close> has been cancelled. The machine receives the caller's context.
\<close>

record 's reader =
  r :: "'s Buffer"
  cancel :: bool
  canceled :: bool
  r_started :: bool
  r_closed :: bool
  r_calls :: "call list"

definition NewReader :: "'c \<Rightarrow> ('c, 's) Machine \<Rightarrow> string list \<Rightarrow> 's reader" where
  "NewReader ctx mach args =
     \<lparr>r = Command mach ctx args, cancel = True, canceled = False,
      r_started = False, r_closed = False, r_calls = []\<rparr>"

definition reader_Read :: "'s reader \<Rightarrow> (string \<times> error option) \<times> 's reader" where
  "reader_Read rd =
     (if r_closed rd then (([], Some ErrClosed), rd)
      else let rd = rd\<lparr>r_started := True\<rparr> in
        (case Buffer_Read (r rd) of
           (res, b) \<Rightarrow> (res, rd\<lparr>r := b, r_calls := r_calls rd @ [CallRead]\<rparr>)))"

definition reader_Close :: "'s reader \<Rightarrow> error option \<times> 's reader" where
  "reader_Close rd =
     (if r_closed rd then (None, rd)
      else let started = r_started rd;
               rd = rd\<lparr>r_closed := True\<rparr>;
               rd = (if started \<and> cancel rd then rd\<lparr>canceled := True\<rparr> else rd)
           in if started
              then (case as_Closer (r rd) of
                      Some (res, b) \<Rightarrow> (res, rd\<lparr>r := b, r_calls := r_calls rd @ [CallClose]\<rparr>)
                    | None \<Rightarrow> (None, rd))
              else (None, rd))"

subsection \<open>Writer\<close>

text \<open>
  The field \<^verbatim>\<open>w.w\<close> holds the unit itself (\<open>WriteBuffer\<close>: \<^verbatim>\<open>NewWriter\<close> stores it only after
  the \<^verbatim>\<open>WriteBuffer\<close> assertion succeeded) or a \<^verbatim>\<open>*readOnlyBuffer\<close> around it. The latter
  embeds the \<^verbatim>\<open>Buffer\<close> interface: it has the unit's Read, its own Write, and no Close.
  The \<open>None\<close> branches under \<open>WriteBuffer\<close> stand for units without Write or Close, which
  \<^verbatim>\<open>NewWriter\<close> never stores there.
\<close>

datatype 's io_Writer = WriteBuffer "'s Buffer" | readOnlyBuffer "'s Buffer"

fun embedded :: "'s io_Writer \<Rightarrow> 's Buffer" where
  "embedded (WriteBuffer b) = b"
| "embedded (readOnlyBuffer b) = b"

fun with_embedded :: "'s io_Writer \<Rightarrow> 's Buffer \<Rightarrow> 's io_Writer" where
  "with_embedded (WriteBuffer b) b' = WriteBuffer b'"
| "with_embedded (readOnlyBuffer b) b' = readOnlyBuffer b'"

fun io_Writer_Write :: "'s io_Writer \<Rightarrow> string \<Rightarrow> ((nat \<times> error option) \<times> 's io_Writer) \<times> call list" where
  "io_Writer_Write (readOnlyBuffer b) p = (((0, Some ErrReadOnly), readOnlyBuffer b), [])"
| "io_Writer_Write (WriteBuffer b) p =
     (case as_Writer b of
        Some wr \<Rightarrow> (case wr p of (res, b') \<Rightarrow> ((res, WriteBuffer b'), [CallWrite p]))
      | None \<Rightarrow> (((0, Some ErrReadOnly), WriteBuffer b), []))"

fun io_Writer_Closer :: "'s io_Writer \<Rightarrow> (error option \<times> 's io_Writer) option" where
  "io_Writer_Closer (readOnlyBuffer b) = None"
| "io_Writer_Closer (WriteBuffer b) =
     (case as_Closer b of Some (res, b') \<Rightarrow> Some (res, WriteBuffer b') | None \<Rightarrow> None)"

text \<open>
  The channel \<^verbatim>\<open>w.read\<close> together with the task that feeds it: nil before \<^verbatim>\<open>init\<close>;
  \<open>Running\<close> once \<^verbatim>\<open>init\<close> has made the channel and started the task that drains the unit's
  output; \<open>Sent v\<close> when the task has ended and its result \<open>v\<close> sits in the channel;
  \<open>Received\<close> after that one value has been taken. A receive from a channel that will
  never hold a value, or while the drain never ends, blocks for ever: the outcome
  \<open>Blocks\<close>.
\<close>

datatype chan = NoChan | Running | Sent "error option" | Received

datatype 'a outcome = Returns 'a | Blocks

record 's writer =
  w :: "'s io_Writer"
  read :: chan
  w_started :: bool
  w_closed :: bool
  w_calls :: "call list"

text \<open>
  Both a \<^verbatim>\<open>WriteBuffer\<close> and a \<^verbatim>\<open>readOnlyBuffer\<close> are \<^verbatim>\<open>io.Reader\<close>s, so \<^verbatim>\<open>init\<close> always starts
  the task that runs \<^verbatim>\<open>io.Copy(io.Discard, r)\<close> and sends its result; the other branch,
  which sends nil, is never taken.
\<close>

definition writer_init :: "'s writer \<Rightarrow> 's writer" where
  "writer_init wr = wr\<lparr>read := Running\<rparr>"

text \<open>
  The drain task runs beside the caller. \<open>drain_step\<close> is one Read of the task, made at
  any moment while it runs: a Read without error leaves it running, \<^verbatim>\<open>io.EOF\<close> ends it
  with nil and any other error ends it with that error; the result is sent on the
  channel, which has room for it.
\<close>

definition drain_step :: "'s writer \<Rightarrow> 's writer" where
  "drain_step wr =
     (case read wr of
        Running \<Rightarrow>
          (case Buffer_Read (embedded (w wr)) of
             ((p, None), b) \<Rightarrow>
               wr\<lparr>w := with_embedded (w wr) b, w_calls := w_calls wr @ [CallRead]\<rparr>
           | ((p, Some err), b) \<Rightarrow>
               wr\<lparr>w := with_embedded (w wr) b, read := Sent (if err = EOF then None else Some err),
                  w_calls := w_calls wr @ [CallRead]\<rparr>)
      | NoChan \<Rightarrow> wr
      | Sent v \<Rightarrow> wr
      | Received \<Rightarrow> wr)"

text \<open>
  The Reads the task still makes from unit \<open>b\<close> until it ends, and what it then sends;
  \<open>n\<close> counts the Reads. \<open>None\<close> when the output never ends.
\<close>

partial_function (option) drain :: "'s Buffer \<Rightarrow> nat \<Rightarrow> (error option \<times> 's Buffer \<times> nat) option" where
  "drain b n =
     (case Buffer_Read b of
        ((p, None), b') \<Rightarrow> drain b' (Suc n)
      | ((p, Some err), b') \<Rightarrow> Some (if err = EOF then None else Some err, b', Suc n))"

text \<open>
  \<^verbatim>\<open><-w.read\<close>: the value is taken when it is there; while the task runs, the caller
  waits for the task to make the rest of its Reads and takes what it sends.
\<close>

definition receive :: "'s writer \<Rightarrow> error option outcome \<times> 's writer" where
  "receive wr =
     (case read wr of
        Sent v \<Rightarrow> (Returns v, wr\<lparr>read := Received\<rparr>)
      | Running \<Rightarrow>
          (case drain (embedded (w wr)) 0 of
             Some (err, b, n) \<Rightarrow>
               (Returns err,
                wr\<lparr>w := with_embedded (w wr) b, read := Received,
                   w_calls := w_calls wr @ replicate n CallRead\<rparr>)
           | None \<Rightarrow> (Blocks, wr))
      | NoChan \<Rightarrow> (Blocks, wr)
      | Received \<Rightarrow> (Blocks, wr))"

text \<open>
  \<open>writer_start\<close> is the locked part of a Write that found the Writer open: the first one
  sets \<open>started\<close> and calls \<^verbatim>\<open>init\<close>. The call of the unit's Write follows it.
\<close>

definition writer_start :: "'s writer \<Rightarrow> 's writer" where
  "writer_start wr = (if \<not> w_started wr then writer_init (wr\<lparr>w_started := True\<rparr>) else wr)"

definition writer_Write :: "'s writer \<Rightarrow> string \<Rightarrow> (nat \<times> error option) \<times> 's writer" where
  "writer_Write wr p =
     (if w_closed wr then ((0, Some ErrClosed), wr)
      else let wr = writer_start wr in
        (case io_Writer_Write (w wr) p of
           ((res, t), cs) \<Rightarrow> (res, wr\<lparr>w := t, w_calls := w_calls wr @ cs\<rparr>)))"

definition writer_Close :: "'s writer \<Rightarrow> error option outcome \<times> 's writer" where
  "writer_Close wr =
     (if w_closed wr then (Returns None, wr)
      else let started = w_started wr;
               wr = wr\<lparr>w_closed := True\<rparr>
           in if \<not> started then (Returns None, wr)
              else (case io_Writer_Closer (w wr) of
                      Some (err, t) \<Rightarrow>
                        (let wr = wr\<lparr>w := t, w_calls := w_calls wr @ [CallClose]\<rparr>
                         in if err \<noteq> None then (Returns err, wr) else receive wr)
                    | None \<Rightarrow> receive wr))"

definition NewWriter :: "'c \<Rightarrow> ('c, 's) Machine \<Rightarrow> string list \<Rightarrow> 's writer" where
  "NewWriter ctx mach args =
     (let buf = Command mach ctx args in
      \<lparr>w = (if is_WriteBuffer buf then WriteBuffer buf else readOnlyBuffer buf),
       read = NoChan, w_started = False, w_closed = False, w_calls = []\<rparr>)"

text \<open>
  The states a Writer can be in, under every schedule of the drain task: as \<^verbatim>\<open>NewWriter\<close>
  builds it; in the middle of a Write, after \<^verbatim>\<open>init\<close> and before the unit's Write; after a
  Write; after a Read of the drain task; after a Close.
\<close>

inductive reachable_writer :: "'s writer \<Rightarrow> bool" where
  fresh: "reachable_writer \<lparr>w = t, read = NoChan, w_started = False, w_closed = False, w_calls = []\<rparr>"
| started: "reachable_writer wr \<Longrightarrow> \<not> w_closed wr \<Longrightarrow> reachable_writer (writer_start wr)"
| written: "reachable_writer wr \<Longrightarrow> reachable_writer (snd (writer_Write wr p))"
| drained: "reachable_writer wr \<Longrightarrow> reachable_writer (drain_step wr)"
| closed: "reachable_writer wr \<Longrightarrow> reachable_writer (snd (writer_Close wr))"

subsection \<open>Stream\<close>

record 's stream =
  buf :: "'s Buffer"
  s_calls :: "call list"

definition NewStream :: "'c \<Rightarrow> ('c, 's) Machine \<Rightarrow> string list \<Rightarrow> 's stream" where
  "NewStream ctx mach args = \<lparr>buf = Command mach ctx args, s_calls = []\<rparr>"

definition stream_Read :: "'s stream \<Rightarrow> (string \<times> error option) \<times> 's stream" where
  "stream_Read s =
     (case Buffer_Read (buf s) of
        (res, b) \<Rightarrow> (res, s\<lparr>buf := b, s_calls := s_calls s @ [CallRead]\<rparr>))"

definition stream_Write :: "'s stream \<Rightarrow> string \<Rightarrow> (nat \<times> error option) \<times> 's stream" where
  "stream_Write s p =
     (case (if is_WriteBuffer (buf s) then as_Writer (buf s) else None) of
        Some wr \<Rightarrow>
          (case wr p of (res, b) \<Rightarrow> (res, s\<lparr>buf := b, s_calls := s_calls s @ [CallWrite p]\<rparr>))
      | None \<Rightarrow> ((0, Some ErrReadOnly), s))"

definition stream_Close :: "'s stream \<Rightarrow> error option \<times> 's stream" where
  "stream_Close s =
     (case (if is_WriteBuffer (buf s) then as_Closer (buf s) else None) of
        Some (res, b) \<Rightarrow> (res, s\<lparr>buf := b, s_calls := s_calls s @ [CallClose]\<rparr>)
      | None \<Rightarrow> (None, s))"

section \<open>The pipeline copier\<close>

text \<open>
  \<^verbatim>\<open>Copy(dst, src, mid...)\<close> joins \<^verbatim>\<open>io.Reader\<close>, \<^verbatim>\<open>io.Writer\<close> and \<^verbatim>\<open>io.ReadWriter\<close> values. An
  endpoint is described by what it does as a stream processor:
  \<^item> \<open>stringer\<close>: \<open>None\<close> when it is no \<^verbatim>\<open>fmt.Stringer\<close>, otherwise its \<^verbatim>\<open>String()\<close> as a
    function of the bytes it has taken; \<open>gotype\<close>: what \<^verbatim>\<open>%T\<close> prints;
  \<^item> \<open>emits inp\<close>: the bytes its Read side delivers, given the bytes \<open>inp\<close> its Write side
    has taken, and how the stream ends (\<open>None\<close> for \<^verbatim>\<open>io.EOF\<close>, \<open>Some e\<close> for a failed Read);
  \<^item> \<open>accepts data\<close>: how many bytes of \<open>data\<close> its Write side takes, and the error that
    stops it (\<open>None\<close>: all of it was written);
  \<^item> \<open>closer\<close>: \<open>None\<close> when it is no \<^verbatim>\<open>io.Closer\<close>, otherwise the result of Close as a
    function of the number of earlier closes;
  \<^item> \<open>writerTo\<close>: it implements \<^verbatim>\<open>io.WriterTo\<close>, so \<^verbatim>\<open>io.Copy\<close> from it never uses the
    destination's \<^verbatim>\<open>ReadFrom\<close>; \<open>autoClose\<close>: its \<^verbatim>\<open>ReadFrom\<close> closes the input side after
    copying and reports the close error when the copy had none (\<^verbatim>\<open>stream.ReadFrom\<close>);
  \<^item> \<open>received\<close> and \<open>closes\<close>: the bytes taken and the closes made so far;
  \<^item> \<open>events\<close>: what has been done to it, in order: \<open>Wrote d\<close> when an \<^verbatim>\<open>io.Copy\<close> into it has
    written the bytes \<open>d\<close>, \<open>Closed\<close> for each call of its Close.

  Every Read side is assumed to end. The edge tasks run concurrently in Go; the endpoints
  being deterministic stream processors, the model runs the edges in flow order, each
  to its end.
\<close>

datatype event = Wrote string | Closed

record endpoint =
  stringer :: "(string \<Rightarrow> string) option"
  gotype :: string
  emits :: "string \<Rightarrow> string \<times> error option"
  accepts :: "string \<Rightarrow> nat \<times> error option"
  closer :: "(nat \<Rightarrow> error option) option"
  writerTo :: bool
  autoClose :: bool
  received :: string
  closes :: nat
  events :: "event list"

definition cmdString :: "endpoint \<Rightarrow> string" where
  "cmdString v = (case stringer v of Some s \<Rightarrow> s (received v) | None \<Rightarrow> ''<'' @ gotype v @ ''>'')"

text \<open>\<^verbatim>\<open>if c, ok := w.(io.Closer); ok { closeErr = c.Close() }\<close>\<close>

definition Close_if_Closer :: "endpoint \<Rightarrow> error option \<times> endpoint" where
  "Close_if_Closer wtr =
     (case closer wtr of
        Some c \<Rightarrow>
          (c (closes wtr), wtr\<lparr>closes := Suc (closes wtr), events := events wtr @ [Closed]\<rparr>)
      | None \<Rightarrow> (None, wtr))"

text \<open>
  \<^verbatim>\<open>io.Copy(w, r)\<close>: the bytes written and the first error met, a failed Write before the
  Read error that follows it.
\<close>

definition io_Copy :: "endpoint \<Rightarrow> endpoint \<Rightarrow> (nat \<times> error option) \<times> endpoint" where
  "io_Copy wtr rdr =
     (case emits rdr (received rdr) of
        (data, rerr) \<Rightarrow>
          (case accepts wtr data of
             (n, werr) \<Rightarrow>
               let err = (if werr \<noteq> None then werr else rerr);
                   wtr = wtr\<lparr>received := received wtr @ take n data,
                            events := events wtr @ [Wrote (take n data)]\<rparr>
               in if \<not> writerTo rdr \<and> autoClose wtr
                  then (case Close_if_Closer wtr of
                          (closeErr, wtr) \<Rightarrow> ((n, if err = None then closeErr else err), wtr))
                  else ((n, err), wtr)))"


text \<open>
  One task per edge: the bytes \<^verbatim>\<open>io.Copy\<close> reported, its error, the error of the deferred
  close of the writer, and \<^verbatim>\<open>cmdString(r)\<close>. \<open>edges rdr ws\<close> runs the edges from the reader
  \<open>rdr\<close> through the writers \<open>ws\<close>, each writer being the reader of the next edge, and
  returns the tasks in edge order with the endpoints as the edges left them.
\<close>

record task =
  t_n :: nat
  t_err :: "error option"
  t_closeErr :: "error option"
  t_cmd :: string

fun edges :: "endpoint \<Rightarrow> endpoint list \<Rightarrow> task list \<times> endpoint list" where
  "edges rdr [] = ([], [])"
| "edges rdr (wtr # ws) =
     (case io_Copy wtr rdr of
        ((n, err), wtr) \<Rightarrow>
          (case Close_if_Closer wtr of
             (closeErr, wtr) \<Rightarrow>
               (case edges wtr ws of
                  (tasks, eps) \<Rightarrow>
                    (\<lparr>t_n = n, t_err = err, t_closeErr = closeErr, t_cmd = cmdString rdr\<rparr> # tasks,
                     wtr # eps))))"

text \<open>\<^verbatim>\<open>copyResult{cmd: cmdString(r), err: errors.Join(err, closeErr)}\<close>\<close>

definition copyResult :: "task \<Rightarrow> string \<times> error option" where
  "copyResult t = (t_cmd t, errors_Join [t_err t, t_closeErr t])"

text \<open>
  \<^verbatim>\<open>Copy\<close>: \<open>written\<close> adds what the tasks with a nil copy error sent on \<^verbatim>\<open>count\<close>;
  \<^verbatim>\<open>g.Wait()\<close> is not nil exactly when some task returned a copy error, and then the
  error returned is the \<^verbatim>\<open>*copyError\<close> holding every result. The byte counts are \<^verbatim>\<open>int64\<close>
  in Go and natural numbers here.
\<close>

definition Copy :: "endpoint \<Rightarrow> endpoint \<Rightarrow> endpoint list \<Rightarrow> (nat \<times> error option) \<times> endpoint list" where
  "Copy dst src mid =
     (case edges src (mid @ [dst]) of
        (tasks, eps) \<Rightarrow>
          let results = map copyResult tasks;
              written = sum_list (map t_n (filter (\<lambda>t. t_err t = None) tasks));
              err = (if list_ex (\<lambda>t. t_err t \<noteq> None) tasks then Some (CopyError results) else None)
          in ((written, err), eps))"

section \<open>Units and endpoints of the tests and examples\<close>

text \<open>
  \<open>strings_NewReader s\<close> is a \<^verbatim>\<open>*strings.Reader\<close> used as a unit: read-only, it delivers \<open>s\<close>
  and then \<^verbatim>\<open>io.EOF\<close>. \<open>tracker read_err close_err\<close> follows \<^verbatim>\<open>closeTracker\<close>: Read returns
  \<open>(0, read_err)\<close>, or \<open>(0, io.EOF)\<close> when \<open>read_err\<close> is nil, Write takes everything, and Close
  records that it was called and returns \<open>close_err\<close>.
\<close>

definition strings_NewReader :: "string \<Rightarrow> string Buffer" where
  "strings_NewReader s =
     Cmd s (\<lambda>rest. if rest = [] then (([], Some EOF), []) else ((rest, None), [])) None None None"

definition tracker :: "error option \<Rightarrow> error option \<Rightarrow> bool Buffer" where
  "tracker read_err close_err =
     Cmd False
         (\<lambda>c. (([], Some (case read_err of None \<Rightarrow> EOF | Some e \<Rightarrow> e)), c))
         (Some (\<lambda>c p. ((length p, None), c)))
         (Some (\<lambda>c. (close_err, True)))
         None"

text \<open>A writable unit whose output never ends: every Read returns no bytes and no error.\<close>

definition endless :: "unit Buffer" where
  "endless = Cmd () (\<lambda>s. (([], None), s)) (Some (\<lambda>s p. ((length p, None), s))) (Some (\<lambda>s. (None, s))) None"

text \<open>The results of writing the chunks \<open>ps\<close> one after the other.\<close>

fun writer_Writes :: "'s writer \<Rightarrow> string list \<Rightarrow> (nat \<times> error option) list" where
  "writer_Writes wr [] = []"
| "writer_Writes wr (p # ps) = (case writer_Write wr p of (res, wr') \<Rightarrow> res # writer_Writes wr' ps)"

text \<open>
  The endpoints of \<^verbatim>\<open>ExampleCopy\<close>: a \<^verbatim>\<open>*strings.Reader\<close> as source, the stream of the
  in-memory \<^verbatim>\<open>tr a-z A-Z\<close>, which replaces each lower-case ASCII letter by its upper-case
  letter and, being a \<^verbatim>\<open>*command.stream\<close>, has no \<^verbatim>\<open>String\<close> method, and a \<^verbatim>\<open>*bytes.Buffer\<close>
  as sink, whose \<^verbatim>\<open>String()\<close> is its content; then a stage whose Read fails (after
  \<^verbatim>\<open>iotest.ErrReader\<close>), the two ends of an \<^verbatim>\<open>io.Pipe\<close> as one stage (as in
  \<^verbatim>\<open>TestCopySuccessNoError\<close>) and a closable sink (after \<^verbatim>\<open>*io.PipeWriter\<close>), both with the
  error their Close returns. A source is never written to and a sink never read; their
  unused sides are filled with defaults.
\<close>

definition tr_a_z_A_Z :: "string \<Rightarrow> string" where
  "tr_a_z_A_Z s =
     map (\<lambda>c. case map_of (zip ''abcdefghijklmnopqrstuvwxyz'' ''ABCDEFGHIJKLMNOPQRSTUVWXYZ'') c of
                Some u \<Rightarrow> u | None \<Rightarrow> c) s"

definition strings_Reader :: "string \<Rightarrow> endpoint" where
  "strings_Reader s =
     \<lparr>stringer = None, gotype = ''*strings.Reader'', emits = (\<lambda>inp. (s, None)),
      accepts = (\<lambda>data. (0, None)), closer = None,
      writerTo = True, autoClose = False, received = [], closes = 0, events = []\<rparr>"

definition bytes_Buffer :: endpoint where
  "bytes_Buffer =
     \<lparr>stringer = Some (\<lambda>inp. inp), gotype = ''*bytes.Buffer'', emits = (\<lambda>inp. (inp, None)),
      accepts = (\<lambda>data. (length data, None)), closer = None,
      writerTo = True, autoClose = False, received = [], closes = 0, events = []\<rparr>"

definition tr_stream :: endpoint where
  "tr_stream =
     \<lparr>stringer = None, gotype = ''*command.stream'',
      emits = (\<lambda>inp. (tr_a_z_A_Z inp, None)),
      accepts = (\<lambda>data. (length data, None)), closer = Some (\<lambda>k. None),
      writerTo = False, autoClose = True, received = [], closes = 0, events = []\<rparr>"

definition failing_stage :: "error \<Rightarrow> endpoint" where
  "failing_stage e =
     \<lparr>stringer = None, gotype = ''struct { io.Reader; io.Writer }'',
      emits = (\<lambda>inp. ([], Some e)),
      accepts = (\<lambda>data. (length data, None)), closer = None,
      writerTo = False, autoClose = False, received = [], closes = 0, events = []\<rparr>"

definition pipe_stage :: "error option \<Rightarrow> endpoint" where
  "pipe_stage close_err =
     \<lparr>stringer = None, gotype = ''struct { io.Reader; io.Writer; io.Closer }'',
      emits = (\<lambda>inp. (inp, None)),
      accepts = (\<lambda>data. (length data, None)), closer = Some (\<lambda>k. close_err),
      writerTo = False, autoClose = False, received = [], closes = 0, events = []\<rparr>"

definition pipe_sink :: "error option \<Rightarrow> endpoint" where
  "pipe_sink close_err =
     \<lparr>stringer = None, gotype = ''*io.PipeWriter'', emits = (\<lambda>inp. ([], None)),
      accepts = (\<lambda>data. (length data, None)), closer = Some (\<lambda>k. close_err),
      writerTo = False, autoClose = False, received = [], closes = 0, events = []\<rparr>"

text \<open>A \<^verbatim>\<open>MachineFunc\<close> that returns the unit \<open>b\<close> for every command, as the tests build.\<close>

definition test_machine :: "'s Buffer \<Rightarrow> (unit, 's) Machine" where
  "test_machine b = MachineFunc (\<lambda>ctx args. b)"

text \<open>
  The core machine of \<^verbatim>\<open>TestProbesOS_PiercesShell\<close>: it answers \<^verbatim>\<open>uname -s\<close> and reports
  every other command as not found.
\<close>

definition uname_core :: "('c, string) Machine" where
  "uname_core =
     MachineFunc (\<lambda>ctx args.
       if args = [''uname'', ''-s''] then strings_NewReader (''Linux'' @ [CHR 0x0A])
       else Fail (CmdError [] (Some (ErrorString (''command not found: '' @ hd args))) 0))"

section \<open>Helper lemmas\<close>

lemma lookup_WithEnv:
  "lookup (Envs (WithEnv ctx env)) key =
     (case lookup env key of Some v \<Rightarrow> Some v | None \<Rightarrow> lookup (Envs ctx) key)"
  by (auto simp: lookup_def Envs_def WithEnv_def maps_Copy_def map_add_def split: option.splits env_value.splits)

lemma routes_Sh_Handle:
  "map_of (routes (Sh_Handle sh cmd machine)) = (map_of (routes sh))(cmd \<mapsto> machine)"
  by (simp add: Sh_Handle_def update_conv')

lemma Sh_Command_eq:
  "Sh_Command sh ctx (name # rest) =
     (case map_of (routes sh) name of
        Some machine \<Rightarrow> Command machine ctx (name # rest)
      | None \<Rightarrow> if fallback sh then Command (m sh) ctx (name # rest)
                else Fail (CmdError [] (Some (ErrorString (''command not found: '' @ name))) 0))"
  by (cases sh) (auto split: option.splits)

lemma io_ReadAll_Fail: "io_ReadAll (Fail e) b = Some ((b, if e = EOF then None else Some e), Fail e)"
  by (subst io_ReadAll.simps) simp

lemma io_ReadAll_strings_NewReader:
  "io_ReadAll (strings_NewReader s) b = Some ((b @ s, None), strings_NewReader [])"
  apply (subst io_ReadAll.simps)
  apply (simp add: strings_NewReader_def)
  apply (subst io_ReadAll.simps)
  apply simp
  done

lemma Read_Fail:
  "Command mach ctx args = Fail e \<Longrightarrow> e \<noteq> EOF \<Longrightarrow> Read ctx mach args = Some ([], Some e)"
  by (simp add: Read_def io_ReadAll_Fail TrimRight_space_def)

lemma probeRead_done:
  "Read ctx mach args = Some (out, err) \<Longrightarrow> \<not> NotFound err \<Longrightarrow>
     probeRead ctx mach args = Some (out, err)"
  by (subst probeRead.simps) simp

lemma probeRead_descend:
  "Read ctx mach args = Some (out, err) \<Longrightarrow> NotFound err \<Longrightarrow> as_Unsheller mach = Some inner \<Longrightarrow>
     probeRead ctx mach args = probeRead ctx inner args"
  by (subst probeRead.simps) (auto simp: NotFound_def)

lemma probeRead_bottom:
  "Read ctx mach args = Some (out, err) \<Longrightarrow> NotFound err \<Longrightarrow> as_Unsheller mach = None \<Longrightarrow>
     probeRead ctx mach args = Some (out, err)"
  by (subst probeRead.simps) (auto simp: NotFound_def)

lemma probeRead_returns:
  "list_all (\<lambda>l. Read ctx l args \<noteq> None) (layers mach) \<Longrightarrow>
     \<exists>res. probeRead ctx mach args = Some res \<and> list_ex (\<lambda>l. Read ctx l args = Some res) (layers mach)"
proof (induction mach rule: layers.induct)
  case (1 f)
  then obtain out err where rd: "Read ctx (MachineFunc f) args = Some (out, err)"
    by auto
  show ?case
  proof (cases "NotFound err")
    case True
    with rd show ?thesis by (simp add: probeRead_bottom)
  next
    case False
    with rd show ?thesis by (simp add: probeRead_done)
  qed
next
  case (2 rs core fb)
  then obtain out err where rd: "Read ctx (ShMachine (Sh rs core fb)) args = Some (out, err)"
    by auto
  show ?case
  proof (cases "NotFound err")
    case True
    with rd have "probeRead ctx (ShMachine (Sh rs core fb)) args = probeRead ctx core args"
      by (simp add: probeRead_descend Sh_Unshell_def)
    with 2 show ?thesis by auto
  next
    case False
    with rd show ?thesis by (simp add: probeRead_done)
  qed
qed

lemma Read_uname_core: "Read ctx uname_core [''uname'', ''-s''] = Some (''Linux'', None)"
  by (simp add: Read_def uname_core_def io_ReadAll_strings_NewReader TrimRight_space_def IsSpace_def)

lemma Read_Shell_not_found:
  "Read ctx (ShMachine (Shell core [])) [''uname'', ''-s''] =
     Some ([], Some (CmdError [] (Some (ErrorString ''command not found: uname'')) 0))"
  by (rule Read_Fail) (simp_all add: Shell_def EOF_def)

lemma reader_Close_closed: "r_closed (snd (reader_Close rd))"
  by (simp add: reader_Close_def Let_def split: option.splits prod.splits)

lemma receive_closed: "w_closed (snd (receive wr)) = w_closed wr"
  by (simp add: receive_def split: chan.splits option.splits prod.splits)

lemma writer_Close_closed: "w_closed (snd (writer_Close wr))"
  by (simp add: writer_Close_def Let_def receive_closed split: option.splits prod.splits)

lemma reachable_NewWriter: "reachable_writer (NewWriter ctx mach args)"
  by (simp add: NewWriter_def Let_def reachable_writer.fresh)

lemma reachable_writer_chan:
  "reachable_writer wr \<Longrightarrow> w_started wr \<Longrightarrow> \<not> w_closed wr \<Longrightarrow>
     read wr = Running \<or> (\<exists>v. read wr = Sent v)"
proof (induction rule: reachable_writer.induct)
  case (fresh t)
  then show ?case by simp
next
  case (started wr)
  then show ?case
    by (auto simp: writer_start_def writer_init_def split: if_splits)
next
  case (written wr p)
  then show ?case
    by (auto simp: writer_Write_def writer_start_def writer_init_def Let_def
        split: if_splits prod.splits)
next
  case (drained wr)
  then show ?case
    by (auto simp: drain_step_def split: chan.splits prod.splits option.splits)
next
  case (closed wr)
  then show ?case
    using writer_Close_closed [of wr] by simp
qed

lemma Buffer_Read_endless: "Buffer_Read endless = (([], None), endless)"
  by (simp add: endless_def)

lemma drain_endless_aux: "drain b n = Some y \<Longrightarrow> b \<noteq> endless"
proof (rule drain.raw_induct [where P = "\<lambda>b n y. b \<noteq> endless"], goal_cases)
  case (1 drain' b n y)
  show ?case
  proof
    assume "b = endless"
    with 1(3) have "drain' endless (Suc n) = Some y"
      by (simp add: Buffer_Read_endless)
    with 1(2) show False by blast
  qed
qed

lemma drain_endless: "drain endless n = None"
  using drain_endless_aux [of endless n] by (cases "drain endless n") auto

lemma receive_Running:
  "read wr = Running \<Longrightarrow>
     receive wr =
       (case drain (embedded (w wr)) 0 of
          Some (err, b, n) \<Rightarrow>
            (Returns err, wr\<lparr>w := with_embedded (w wr) b, read := Received,
                              w_calls := w_calls wr @ replicate n CallRead\<rparr>)
        | None \<Rightarrow> (Blocks, wr))"
  by (simp add: receive_def)

lemma receive_Sent: "read wr = Sent v \<Longrightarrow> receive wr = (Returns v, wr\<lparr>read := Received\<rparr>)"
  by (simp add: receive_def)

lemma writer_Write_readOnly:
  "w wr = readOnlyBuffer b \<Longrightarrow> \<not> w_closed wr \<Longrightarrow>
     fst (writer_Write wr p) = (0, Some ErrReadOnly)
     \<and> w (snd (writer_Write wr p)) = readOnlyBuffer b
     \<and> \<not> w_closed (snd (writer_Write wr p))"
  by (simp add: writer_Write_def writer_start_def writer_init_def Let_def)

lemma writer_Writes_readOnly:
  "w wr = readOnlyBuffer b \<Longrightarrow> \<not> w_closed wr \<Longrightarrow>
     writer_Writes wr ps = replicate (length ps) (0, Some ErrReadOnly)"
proof (induction ps arbitrary: wr)
  case Nil
  then show ?case by simp
next
  case (Cons p ps)
  from writer_Write_readOnly [OF Cons.prems, of p]
  have res: "fst (writer_Write wr p) = (0, Some ErrReadOnly)"
    and w': "w (snd (writer_Write wr p)) = readOnlyBuffer b"
    and open': "\<not> w_closed (snd (writer_Write wr p))"
    by simp_all
  from Cons.IH [OF w' open'] res show ?case
    by (simp add: case_prod_beta)
qed

lemma drain_tracker:
  "drain (Cmd c (\<lambda>c. (([], Some e), c)) wr cl lg) n =
     Some (if e = EOF then None else Some e, Cmd c (\<lambda>c. (([], Some e), c)) wr cl lg, Suc n)"
  by (subst drain.simps) simp













lemmas scenario_defs =
  Copy_def io_Copy_def Close_if_Closer_def cmdString_def copyResult_def errors_Join_def
  strings_Reader_def bytes_Buffer_def tr_stream_def tr_a_z_A_Z_def failing_stage_def pipe_sink_def
  pipe_stage_def

text \<open>
  \<^verbatim>\<open>TestCopySuccessNoError\<close>: four bytes through one stage; the test wants 8 bytes
  reported and \<open>data\<close> in the buffer.
\<close>

lemma TestCopySuccessNoError:
  "fst (Copy bytes_Buffer (strings_Reader ''data'') [pipe_stage None]) = (8, None)
   \<and> received (last (snd (Copy bytes_Buffer (strings_Reader ''data'') [pipe_stage None]))) = ''data''"
  by (simp add: scenario_defs)

text \<open>
  Without interior stages there is one edge, and the total is the number of bytes of the
  source.
\<close>

lemma Copy_no_stage:
  "fst (Copy bytes_Buffer (strings_Reader s) []) = (length s, None)
   \<and> received (last (snd (Copy bytes_Buffer (strings_Reader s) []))) = s"
  by (simp add: scenario_defs)

section \<open>The claims\<close>

text \<open>
  Claim C1, as stated. In the scenario of \<^verbatim>\<open>ExampleCopy\<close> (the source yields \<open>hello world\<close>,
  one interior stage upper-cases, the sink is a buffer) the total returned would be 11.
  It is not: each of the two edges copies 11 bytes and both counts are added.
\<close>

theorem ExampleCopy_count_counterexample:
  "fst (fst (Copy bytes_Buffer (strings_Reader ''hello world'') [tr_stream])) \<noteq> 11"
  by (simp add: scenario_defs)

text \<open>
  Claim C1, amended. In that scenario \<^verbatim>\<open>Copy\<close> returns no error, the sink ends up holding
  \<open>HELLO WORLD\<close>, and the total returned is 22: the sum over both edges, as
  \<^verbatim>\<open>TestCopySuccessNoError\<close> expects 8 for four bytes through one stage.
\<close>

theorem ExampleCopy_result:
  "fst (Copy bytes_Buffer (strings_Reader ''hello world'') [tr_stream]) = (22, None)
   \<and> received (last (snd (Copy bytes_Buffer (strings_Reader ''hello world'') [tr_stream]))) = ''HELLO WORLD''"
  by (simp add: scenario_defs)

text \<open>
  Claim C2, as stated. Close of every Writer that has been written to would close the
  input side of the unit and return what the drain task delivers. Two designed cases
  differ. A Writer over a read-only unit is started by its first Write, which fails;
  its Close makes no Close call on the unit, which has no input side. And a second Close
  returns nil and calls nothing, although the drain task had delivered an error, which
  the first Close returned.
\<close>

theorem writer_Close_design_counterexample:
  "w_started (snd (writer_Write (NewWriter () (test_machine (strings_NewReader ''out'')) []) ''data''))
   \<and> w_calls (snd (writer_Close (snd (writer_Write (NewWriter () (test_machine (strings_NewReader ''out'')) []) ''data''))))
       = [CallRead, CallRead]
   \<and> w_started (snd (writer_Close (snd (writer_Write (NewWriter () (test_machine (tracker (Some (ErrorString ''unexpected EOF'')) None)) []) ''data''))))
   \<and> fst (writer_Close (snd (writer_Write (NewWriter () (test_machine (tracker (Some (ErrorString ''unexpected EOF'')) None)) []) ''data'')))
       = Returns (Some (ErrorString ''unexpected EOF''))
   \<and> fst (writer_Close (snd (writer_Close (snd (writer_Write (NewWriter () (test_machine (tracker (Some (ErrorString ''unexpected EOF'')) None)) []) ''data'')))))
       = Returns None
   \<and> w_calls (snd (writer_Close (snd (writer_Close (snd (writer_Write (NewWriter () (test_machine (tracker (Some (ErrorString ''unexpected EOF'')) None)) []) ''data''))))))
       = [CallWrite ''data'', CallClose, CallRead]"
proof -
  let ?E = "ErrorString ''unexpected EOF''"
  let ?ro = "snd (writer_Write (NewWriter () (test_machine (strings_NewReader ''out'')) []) ''data'')"
  let ?wr = "snd (writer_Write (NewWriter () (test_machine (tracker (Some ?E) None)) []) ''data'')"
  have ro: "?ro = \<lparr>w = readOnlyBuffer (strings_NewReader ''out''), read = Running, w_started = True,
                    w_closed = False, w_calls = []\<rparr>"
    by (simp add: test_machine_def NewWriter_def writer_Write_def writer_start_def writer_init_def
        is_WriteBuffer_def strings_NewReader_def)
  have dr_ro: "drain (strings_NewReader ''out'') 0 = Some (None, strings_NewReader [], 2)"
    apply (subst drain.simps, simp add: strings_NewReader_def)
    apply (subst drain.simps, simp)
    done
  have cl_ro: "writer_Close ?ro =
      (Returns None, \<lparr>w = readOnlyBuffer (strings_NewReader []), read = Received, w_started = True,
                       w_closed = True, w_calls = [CallRead, CallRead]\<rparr>)"
    by (simp add: ro writer_Close_def receive_def dr_ro numeral_2_eq_2)
  have wr: "?wr = \<lparr>w = WriteBuffer (tracker (Some ?E) None), read = Running, w_started = True,
                    w_closed = False, w_calls = [CallWrite ''data'']\<rparr>"
    by (simp add: test_machine_def NewWriter_def writer_Write_def writer_start_def writer_init_def
        is_WriteBuffer_def tracker_def)
  have cl_wr: "fst (writer_Close ?wr) = Returns (Some ?E)
               \<and> w_started (snd (writer_Close ?wr)) \<and> w_closed (snd (writer_Close ?wr))
               \<and> w_calls (snd (writer_Close ?wr)) = [CallWrite ''data'', CallClose, CallRead]"
    unfolding wr by (simp add: writer_Close_def receive_def tracker_def drain_tracker EOF_def)
  then have "writer_Close (snd (writer_Close ?wr)) = (Returns None, snd (writer_Close ?wr))"
    by (simp add: writer_Close_def)
  with cl_wr cl_ro ro show ?thesis
    by simp
qed

text \<open>
  What the code does when the unit's Close fails: \<^verbatim>\<open>writer.Close\<close> returns that error and
  does not receive from the channel, where the drain task goes on and would deliver nil.
  The documentation of \<^verbatim>\<open>NewWriter\<close> has Close wait for the command to complete, and
  \<^verbatim>\<open>ReadFrom\<close> still receives after a failed close. The amended claim says nothing about
  this case.
\<close>

lemma writer_Close_after_failed_close:
  "fst (writer_Close (snd (writer_Write (NewWriter () (test_machine (tracker None (Some (ErrorString ''close failed'')))) []) ''data'')))
       = Returns (Some (ErrorString ''close failed''))
   \<and> read (snd (writer_Close (snd (writer_Write (NewWriter () (test_machine (tracker None (Some (ErrorString ''close failed'')))) []) ''data''))))
       = Running
   \<and> map_option fst (drain (embedded (w (snd (writer_Close (snd (writer_Write (NewWriter () (test_machine (tracker None (Some (ErrorString ''close failed'')))) []) ''data'')))))) 0)
       = Some None"
  by (simp add: test_machine_def tracker_def is_WriteBuffer_def NewWriter_def writer_Close_def
      writer_Write_def writer_start_def writer_init_def Let_def drain_tracker)

text \<open>
  Claim C2, amended. For a Writer that has been written to and is not closed, in every
  state it can reach while the drain task reads at its own pace: the drain task is
  running or has sent its result; Close first calls Close on the unit when the unit is
  writable, and calls nothing of the kind on a read-only unit; when that close reports
  no error, or there was nothing to close, Close returns the value of the drain task:
  the value already sent, or else the value the task sends after the rest of its Reads,
  which follow the close; and Close blocks for as long as the drain does not end.
\<close>

theorem writer_Close_started:
  assumes "reachable_writer wr" and "w_started wr" and "\<not> w_closed wr"
  shows "(read wr = Running \<or> (\<exists>v. read wr = Sent v))
       \<and> (io_Writer_Closer (w wr) = Some (cerr, t) \<longrightarrow>
            (\<exists>rest. w_calls (snd (writer_Close wr)) = w_calls wr @ CallClose # rest))
       \<and> (io_Writer_Closer (w wr) = Some (None, t) \<and> read wr = Sent v \<longrightarrow>
            fst (writer_Close wr) = Returns v
            \<and> w_calls (snd (writer_Close wr)) = w_calls wr @ [CallClose])
       \<and> (io_Writer_Closer (w wr) = Some (None, t) \<and> read wr = Running
             \<and> drain (embedded t) 0 = Some (v, b, n) \<longrightarrow>
            fst (writer_Close wr) = Returns v
            \<and> w_calls (snd (writer_Close wr)) = w_calls wr @ [CallClose] @ replicate n CallRead)
       \<and> (io_Writer_Closer (w wr) = Some (None, t) \<and> read wr = Running
             \<and> drain (embedded t) 0 = None \<longrightarrow>
            fst (writer_Close wr) = Blocks)
       \<and> (io_Writer_Closer (w wr) = None \<and> read wr = Sent v \<longrightarrow>
            fst (writer_Close wr) = Returns v
            \<and> w_calls (snd (writer_Close wr)) = w_calls wr)
       \<and> (io_Writer_Closer (w wr) = None \<and> read wr = Running
             \<and> drain (embedded (w wr)) 0 = Some (v, b, n) \<longrightarrow>
            fst (writer_Close wr) = Returns v
            \<and> w_calls (snd (writer_Close wr)) = w_calls wr @ replicate n CallRead)
       \<and> (io_Writer_Closer (w wr) = None \<and> read wr = Running
             \<and> drain (embedded (w wr)) 0 = None \<longrightarrow>
            fst (writer_Close wr) = Blocks)"
proof -
  from assms have ch: "read wr = Running \<or> (\<exists>v. read wr = Sent v)"
    by (rule reachable_writer_chan)
  have called: "\<exists>rest. w_calls (snd (writer_Close wr)) = w_calls wr @ CallClose # rest"
    if "io_Writer_Closer (w wr) = Some (cerr, t)"
    using that assms(2,3) ch
    by (auto simp: writer_Close_def Let_def receive_Running receive_Sent split: option.splits)
  from assms(2,3) have rest:
    "io_Writer_Closer (w wr) = Some (None, t) \<and> read wr = Sent v \<longrightarrow>
       fst (writer_Close wr) = Returns v
       \<and> w_calls (snd (writer_Close wr)) = w_calls wr @ [CallClose]"
    "io_Writer_Closer (w wr) = Some (None, t) \<and> read wr = Running
       \<and> drain (embedded t) 0 = Some (v, b, n) \<longrightarrow>
       fst (writer_Close wr) = Returns v
       \<and> w_calls (snd (writer_Close wr)) = w_calls wr @ [CallClose] @ replicate n CallRead"
    "io_Writer_Closer (w wr) = Some (None, t) \<and> read wr = Running
       \<and> drain (embedded t) 0 = None \<longrightarrow> fst (writer_Close wr) = Blocks"
    "io_Writer_Closer (w wr) = None \<and> read wr = Sent v \<longrightarrow>
       fst (writer_Close wr) = Returns v \<and> w_calls (snd (writer_Close wr)) = w_calls wr"
    "io_Writer_Closer (w wr) = None \<and> read wr = Running
       \<and> drain (embedded (w wr)) 0 = Some (v, b, n) \<longrightarrow>
       fst (writer_Close wr) = Returns v
       \<and> w_calls (snd (writer_Close wr)) = w_calls wr @ replicate n CallRead"
    "io_Writer_Closer (w wr) = None \<and> read wr = Running
       \<and> drain (embedded (w wr)) 0 = None \<longrightarrow> fst (writer_Close wr) = Blocks"
    by (simp_all add: writer_Close_def Let_def receive_Running receive_Sent)
  from ch called rest show ?thesis
    by blast
qed

theorem writer_Close_started_witness:
  "reachable_writer (snd (writer_Write (NewWriter () (test_machine (tracker (Some (ErrorString ''unexpected EOF'')) None)) []) ''data''))
   \<and> w_started (snd (writer_Write (NewWriter () (test_machine (tracker (Some (ErrorString ''unexpected EOF'')) None)) []) ''data''))
   \<and> \<not> w_closed (snd (writer_Write (NewWriter () (test_machine (tracker (Some (ErrorString ''unexpected EOF'')) None)) []) ''data''))
   \<and> fst (writer_Close (snd (writer_Write (NewWriter () (test_machine (tracker (Some (ErrorString ''unexpected EOF'')) None)) []) ''data'')))
       = Returns (Some (ErrorString ''unexpected EOF''))
   \<and> w_calls (snd (writer_Close (snd (writer_Write (NewWriter () (test_machine (tracker (Some (ErrorString ''unexpected EOF'')) None)) []) ''data''))))
       = [CallWrite ''data'', CallClose, CallRead]
   \<and> reachable_writer (drain_step (snd (writer_Write (NewWriter () (test_machine (tracker (Some (ErrorString ''unexpected EOF'')) None)) []) ''data'')))
   \<and> fst (writer_Close (drain_step (snd (writer_Write (NewWriter () (test_machine (tracker (Some (ErrorString ''unexpected EOF'')) None)) []) ''data''))))
       = Returns (Some (ErrorString ''unexpected EOF''))
   \<and> w_calls (snd (writer_Close (drain_step (snd (writer_Write (NewWriter () (test_machine (tracker (Some (ErrorString ''unexpected EOF'')) None)) []) ''data'')))))
       = [CallWrite ''data'', CallRead, CallClose]
   \<and> fst (writer_Close (snd (writer_Write (NewWriter () (test_machine (strings_NewReader ''out'')) []) ''data'')))
       = Returns None
   \<and> w_calls (snd (writer_Close (snd (writer_Write (NewWriter () (test_machine (strings_NewReader ''out'')) []) ''data''))))
       = [CallRead, CallRead]
   \<and> fst (writer_Close (snd (writer_Write (NewWriter () (test_machine endless) []) ''data''))) = Blocks"
proof -
  let ?E = "ErrorString ''unexpected EOF''"
  let ?closed = "Cmd True (\<lambda>c. (([], Some ?E), c)) (Some (\<lambda>c p. ((length p, None), c)))
                     (Some (\<lambda>c. (None, True))) None"
  let ?wr = "snd (writer_Write (NewWriter () (test_machine (tracker (Some ?E) None)) []) ''data'')"
  let ?ds = "drain_step ?wr"
  let ?ro = "snd (writer_Write (NewWriter () (test_machine (strings_NewReader ''out'')) []) ''data'')"
  let ?en = "snd (writer_Write (NewWriter () (test_machine endless) []) ''data'')"
  have reach: "reachable_writer ?wr" "reachable_writer ?ro" "reachable_writer ?en"
    by (intro reachable_writer.written reachable_NewWriter)+
  then have reach_ds: "reachable_writer ?ds"
    by (intro reachable_writer.drained)
  have wr: "?wr = \<lparr>w = WriteBuffer (tracker (Some ?E) None), read = Running, w_started = True,
                    w_closed = False, w_calls = [CallWrite ''data'']\<rparr>"
    by (simp add: test_machine_def NewWriter_def writer_Write_def writer_start_def writer_init_def
        is_WriteBuffer_def tracker_def)
  have ds: "drain_step \<lparr>w = WriteBuffer (tracker (Some ?E) None), read = Running, w_started = True,
                         w_closed = False, w_calls = [CallWrite ''data'']\<rparr>
              = \<lparr>w = WriteBuffer (tracker (Some ?E) None), read = Sent (Some ?E), w_started = True,
                 w_closed = False, w_calls = [CallWrite ''data'', CallRead]\<rparr>"
    by (simp add: drain_step_def tracker_def EOF_def)
  have ro: "?ro = \<lparr>w = readOnlyBuffer (strings_NewReader ''out''), read = Running, w_started = True,
                    w_closed = False, w_calls = []\<rparr>"
    by (simp add: test_machine_def NewWriter_def writer_Write_def writer_start_def writer_init_def
        is_WriteBuffer_def strings_NewReader_def)
  have en: "?en = \<lparr>w = WriteBuffer endless, read = Running, w_started = True,
                    w_closed = False, w_calls = [CallWrite ''data'']\<rparr>"
    by (simp add: test_machine_def NewWriter_def writer_Write_def writer_start_def writer_init_def
        is_WriteBuffer_def endless_def)
  have cl_wr: "io_Writer_Closer (w ?wr) = Some (None, WriteBuffer ?closed)"
    by (simp add: wr) (simp add: tracker_def)
  have cl_ds: "io_Writer_Closer (w ?ds) = Some (None, WriteBuffer ?closed)"
    by (simp add: wr ds) (simp add: tracker_def)
  have dr_wr: "drain (embedded (WriteBuffer ?closed)) 0 = Some (Some ?E, ?closed, 1)"
    by (simp add: drain_tracker EOF_def)
  have cl_ro: "io_Writer_Closer (w ?ro) = None"
    by (simp add: ro)
  have dr_ro: "drain (embedded (w ?ro)) 0 = Some (None, strings_NewReader [], 2)"
    apply (simp add: ro)
    apply (subst drain.simps, simp add: strings_NewReader_def)
    apply (subst drain.simps, simp)
    done
  have cl_en: "io_Writer_Closer (w ?en) = Some (None, WriteBuffer endless)"
    by (simp add: en) (simp add: endless_def)
  have dr_en: "drain (embedded (WriteBuffer endless)) 0 = None"
    by (simp add: drain_endless)
  have st: "w_started ?wr" "w_started ?ds" "w_started ?ro" "w_started ?en"
    by (simp_all add: wr ds ro en)
  have opn: "\<not> w_closed ?wr" "\<not> w_closed ?ds" "\<not> w_closed ?ro" "\<not> w_closed ?en"
    by (simp_all add: wr ds ro en)
  have ch: "read ?wr = Running" "read ?ds = Sent (Some ?E)" "read ?ro = Running" "read ?en = Running"
    by (simp_all add: wr ds ro en)
  from writer_Close_started [OF reach(1) st(1) opn(1)] cl_wr ch(1) dr_wr
  have 1: "fst (writer_Close ?wr) = Returns (Some ?E)"
    and 2: "w_calls (snd (writer_Close ?wr)) = w_calls ?wr @ [CallClose] @ replicate 1 CallRead"
    by blast+
  from writer_Close_started [OF reach_ds st(2) opn(2)] cl_ds ch(2)
  have 3: "fst (writer_Close ?ds) = Returns (Some ?E)"
    and 4: "w_calls (snd (writer_Close ?ds)) = w_calls ?ds @ [CallClose]"
    by blast+
  from writer_Close_started [OF reach(2) st(3) opn(3)] cl_ro ch(3) dr_ro
  have 5: "fst (writer_Close ?ro) = Returns None"
    and 6: "w_calls (snd (writer_Close ?ro)) = w_calls ?ro @ replicate 2 CallRead"
    by blast+
  from writer_Close_started [OF reach(3) st(4) opn(4)] cl_en ch(4) dr_en
  have 7: "fst (writer_Close ?en) = Blocks"
    by blast
  have c2: "w_calls ?wr @ [CallClose] @ replicate 1 CallRead = [CallWrite ''data'', CallClose, CallRead]"
    by (simp add: wr)
  have c4: "w_calls ?ds @ [CallClose] = [CallWrite ''data'', CallRead, CallClose]"
    by (simp add: wr ds)
  have c6: "w_calls ?ro @ replicate 2 CallRead = [CallRead, CallRead]"
    by (simp add: ro numeral_2_eq_2)
  show ?thesis
    unfolding 1 2 3 4 5 6 7 c2 c4 c6
    by (intro conjI reach(1) reach_ds st(1) opn(1) refl)
qed



text \<open>
  Claim C4. A name registered with \<^verbatim>\<open>Handle\<close> is looked up in the routes and the command
  goes to the machine found there; for a name with no route, a router without fallback
  returns \<^verbatim>\<open>Fail\<close> of an \<^verbatim>\<open>*Error\<close> with a cause and code zero, whose Read fails with that
  error and which \<^verbatim>\<open>NotFound\<close> accepts, and a router with fallback passes the command to
  its core machine.
\<close>

theorem Sh_dispatch:
  "Sh_Command (Sh_Handle sh name machine) ctx (name # rest) = Command machine ctx (name # rest)
   \<and> (map_of (routes sh) name = Some machine \<longrightarrow>
        Sh_Command sh ctx (name # rest) = Command machine ctx (name # rest))
   \<and> (map_of (routes sh) name = None \<and> \<not> fallback sh \<longrightarrow>
        (\<exists>e. Sh_Command sh ctx (name # rest) = Fail e
           \<and> fst (Buffer_Read (Sh_Command sh ctx (name # rest))) = ([], Some e)
           \<and> NotFound (Some e) \<and> errors_As e = Some e \<and> Err e \<noteq> None \<and> Code e = 0))
   \<and> (map_of (routes sh) name = None \<and> fallback sh \<longrightarrow>
        Sh_Command sh ctx (name # rest) = Command (m sh) ctx (name # rest))"
  by (simp add: Sh_Command_eq routes_Sh_Handle NotFound_def)

theorem Sh_dispatch_witness:
  "Sh_Command (Sh_Handle (Shell (test_machine (strings_NewReader ''core'')) []) ''echo''
                 (test_machine (strings_NewReader ''A''))) () [''echo'', ''hi'']
     = strings_NewReader ''A''
   \<and> map_of (routes (Sh_Handle (Shell (test_machine (strings_NewReader ''core'')) []) ''echo''
                 (test_machine (strings_NewReader ''A'')))) ''cat'' = None
   \<and> \<not> fallback (Sh_Handle (Shell (test_machine (strings_NewReader ''core'')) []) ''echo''
                 (test_machine (strings_NewReader ''A'')))
   \<and> NotFound (Some (CmdError [] (Some (ErrorString ''command not found: cat'')) 0))
   \<and> Sh_Command (Sh_Handle (Shell (test_machine (strings_NewReader ''core'')) []) ''echo''
                 (test_machine (strings_NewReader ''A''))) () [''cat'', ''f'']
       = Fail (CmdError [] (Some (ErrorString ''command not found: cat'')) 0)
   \<and> map_of (routes (Sh [] (test_machine (strings_NewReader ''core'')) True)) ''cat'' = None
   \<and> fallback (Sh [] (test_machine (strings_NewReader ''core'')) True)
   \<and> Sh_Command (Sh [] (test_machine (strings_NewReader ''core'')) True) () [''cat'', ''f'']
       = strings_NewReader ''core''"
proof -
  let ?core = "test_machine (strings_NewReader ''core'')"
  let ?A = "test_machine (strings_NewReader ''A'')"
  let ?sh = "Sh_Handle (Shell ?core []) ''echo'' ?A"
  let ?fb = "Sh [] ?core True"
  let ?nf = "CmdError [] (Some (ErrorString ''command not found: cat'')) 0"
  have r: "map_of (routes ?sh) ''cat'' = None" and s: "\<not> fallback ?sh"
    by (simp_all add: Sh_Handle_def Shell_def)
  have r': "map_of (routes ?fb) ''cat'' = None" and s': "fallback ?fb"
    by simp_all
  from Sh_dispatch [of "Shell ?core []" "''echo''" ?A "()" "[''hi'']"]
  have 1: "Sh_Command ?sh () [''echo'', ''hi''] = strings_NewReader ''A''"
    by (simp add: test_machine_def)
  from Sh_dispatch [of ?sh "''cat''" ?A "()" "[''f'']"] r s
  obtain e where e: "Sh_Command ?sh () [''cat'', ''f''] = Fail e" "NotFound (Some e)"
    by blast
  have "Sh_Command ?sh () [''cat'', ''f''] = Fail ?nf"
    by (simp add: Sh_Handle_def Shell_def)
  with e have 2: "NotFound (Some ?nf)" "Sh_Command ?sh () [''cat'', ''f''] = Fail ?nf"
    by simp_all
  from Sh_dispatch [of ?fb "''cat''" ?A "()" "[''f'']"] r' s'
  have 3: "Sh_Command ?fb () [''cat'', ''f''] = strings_NewReader ''core''"
    by (simp add: test_machine_def)
  from 1 r s 2 r' s' 3 show ?thesis by blast
qed

text \<open>
  Claim C5. A result that is not not-found, success or failure, is returned as it is; on
  a not-found result the loop goes on with the machine one layer down when the machine
  is an \<^verbatim>\<open>Unsheller\<close>, as every \<^verbatim>\<open>*Sh\<close> is, and returns the not-found result when it is not;
  and whenever the Read of each layer returns, the loop returns, with the result of one
  of the layers.
\<close>

theorem probeRead_loop:
  "(Read ctx mach args = Some (out, err) \<and> \<not> NotFound err \<longrightarrow>
      probeRead ctx mach args = Some (out, err))
   \<and> (Read ctx mach args = Some (out, err) \<and> NotFound err \<and> as_Unsheller mach = Some inner \<longrightarrow>
        probeRead ctx mach args = probeRead ctx inner args)
   \<and> (Read ctx mach args = Some (out, err) \<and> NotFound err \<and> as_Unsheller mach = None \<longrightarrow>
        probeRead ctx mach args = Some (out, err))
   \<and> as_Unsheller (ShMachine sh) = Some (Sh_Unshell sh)
   \<and> (list_all (\<lambda>l. Read ctx l args \<noteq> None) (layers mach) \<longrightarrow>
        (\<exists>res. probeRead ctx mach args = Some res
           \<and> list_ex (\<lambda>l. Read ctx l args = Some res) (layers mach)))"
  using probeRead_done [of ctx mach args out err]
    probeRead_descend [of ctx mach args out err inner]
    probeRead_bottom [of ctx mach args out err]
    probeRead_returns [of ctx args mach]
  by simp

theorem probeRead_loop_witness:
  "Read () (ShMachine (Shell (ShMachine (Shell uname_core [])) [])) [''uname'', ''-s''] =
     Some ([], Some (CmdError [] (Some (ErrorString ''command not found: uname'')) 0))
   \<and> NotFound (Some (CmdError [] (Some (ErrorString ''command not found: uname'')) 0))
   \<and> as_Unsheller (ShMachine (Shell (ShMachine (Shell uname_core [])) []) :: (unit, string) Machine)
       = Some (ShMachine (Shell uname_core []))
   \<and> Read () (ShMachine (Shell uname_core [])) [''uname'', ''-s''] =
     Some ([], Some (CmdError [] (Some (ErrorString ''command not found: uname'')) 0))
   \<and> as_Unsheller (ShMachine (Shell uname_core []) :: (unit, string) Machine) = Some uname_core
   \<and> Read () uname_core [''uname'', ''-s''] = Some (''Linux'', None)
   \<and> \<not> NotFound None
   \<and> probeRead () (ShMachine (Shell (ShMachine (Shell uname_core [])) [])) [''uname'', ''-s''] = Some (''Linux'', None)
   \<and> as_Unsheller (uname_core :: (unit, string) Machine) = None
   \<and> Read () uname_core [''cat''] = Some ([], Some (CmdError [] (Some (ErrorString ''command not found: cat'')) 0))
   \<and> probeRead () uname_core [''cat''] = Some ([], Some (CmdError [] (Some (ErrorString ''command not found: cat'')) 0))"
proof -
  let ?nf = "Some (CmdError [] (Some (ErrorString ''command not found: uname'')) 0)"
  let ?sh1 = "ShMachine (Shell uname_core []) :: (unit, string) Machine"
  let ?sh2 = "ShMachine (Shell ?sh1 []) :: (unit, string) Machine"
  let ?args = "[''uname'', ''-s'']"
  have nf: "NotFound ?nf" by (simp add: NotFound_def)
  have r2: "Read () ?sh2 ?args = Some ([], ?nf)" by (rule Read_Shell_not_found)
  have r1: "Read () ?sh1 ?args = Some ([], ?nf)" by (rule Read_Shell_not_found)
  have r0: "Read () uname_core ?args = Some (''Linux'', None)" by (rule Read_uname_core)
  have u2: "as_Unsheller ?sh2 = Some ?sh1" by (simp add: Shell_def Sh_Unshell_def)
  have u1: "as_Unsheller ?sh1 = Some uname_core" by (simp add: Shell_def Sh_Unshell_def)
  have u0: "as_Unsheller (uname_core :: (unit, string) Machine) = None" by (simp add: uname_core_def)
  have nn: "\<not> NotFound None" by (simp add: NotFound_def)
  have rc: "Read () uname_core [''cat''] = Some ([], Some (CmdError [] (Some (ErrorString ''command not found: cat'')) 0))"
    by (rule Read_Fail) (simp_all add: uname_core_def EOF_def)
  have nfc: "NotFound (Some (CmdError [] (Some (ErrorString ''command not found: cat'')) 0))"
    by (simp add: NotFound_def)
  from probeRead_loop [of "()" ?sh2 ?args "[]" ?nf ?sh1] r2 nf u2
  have s2: "probeRead () ?sh2 ?args = probeRead () ?sh1 ?args" by simp
  from probeRead_loop [of "()" ?sh1 ?args "[]" ?nf uname_core] r1 nf u1
  have s1: "probeRead () ?sh1 ?args = probeRead () uname_core ?args" by simp
  from probeRead_loop [of "()" uname_core ?args "''Linux''" None] r0 nn
  have s0: "probeRead () uname_core ?args = Some (''Linux'', None)" by simp
  from probeRead_loop [of "()" uname_core "[''cat'']" "[]" "Some (CmdError [] (Some (ErrorString ''command not found: cat'')) 0)"] rc nfc u0
  have sc: "probeRead () uname_core [''cat''] = Some ([], Some (CmdError [] (Some (ErrorString ''command not found: cat'')) 0))"
    by simp
  show ?thesis
    unfolding s2 s1 s0 sc by (intro conjI r2 nf u2 r1 u1 r0 nn u0 rc refl)
qed

text \<open>
  Claim C6. A new Reader or Writer is not started. Close of a Reader or Writer that is
  not started returns nil and changes nothing but the closed flag: the unit is
  untouched, no call was made on it (no Close, no Read, no Write: the command does not
  start), and the derived scope is not cancelled.
\<close>

theorem unused_Close_no_op:
  "\<not> r_started (NewReader ctx mach args)
   \<and> \<not> w_started (NewWriter ctx mach args)
   \<and> (\<not> r_started rd \<longrightarrow>
        fst (reader_Close rd) = None
        \<and> snd (reader_Close rd) = rd\<lparr>r_closed := True\<rparr>
        \<and> r (snd (reader_Close rd)) = r rd
        \<and> r_calls (snd (reader_Close rd)) = r_calls rd
        \<and> canceled (snd (reader_Close rd)) = canceled rd
        \<and> \<not> r_started (snd (reader_Close rd)))
   \<and> (\<not> w_started wr \<longrightarrow>
        fst (writer_Close wr) = Returns None
        \<and> snd (writer_Close wr) = wr\<lparr>w_closed := True\<rparr>
        \<and> w (snd (writer_Close wr)) = w wr
        \<and> w_calls (snd (writer_Close wr)) = w_calls wr
        \<and> read (snd (writer_Close wr)) = read wr
        \<and> \<not> w_started (snd (writer_Close wr)))"
  by (simp add: NewReader_def NewWriter_def reader_Close_def writer_Close_def Let_def)

theorem unused_Close_no_op_witness:
  "\<not> r_started (NewReader () (test_machine (tracker None None)) [''cat''])
   \<and> fst (reader_Close (NewReader () (test_machine (tracker None None)) [''cat''])) = None
   \<and> r (snd (reader_Close (NewReader () (test_machine (tracker None None)) [''cat''])))
       = tracker None None
   \<and> r_calls (snd (reader_Close (NewReader () (test_machine (tracker None None)) [''cat'']))) = []
   \<and> \<not> canceled (snd (reader_Close (NewReader () (test_machine (tracker None None)) [''cat''])))
   \<and> \<not> w_started (NewWriter () (test_machine (tracker None None)) [''cat''])
   \<and> fst (writer_Close (NewWriter () (test_machine (tracker None None)) [''cat''])) = Returns None
   \<and> w (snd (writer_Close (NewWriter () (test_machine (tracker None None)) [''cat''])))
       = WriteBuffer (tracker None None)
   \<and> w_calls (snd (writer_Close (NewWriter () (test_machine (tracker None None)) [''cat'']))) = []"
proof -
  let ?m = "test_machine (tracker None None)"
  let ?rd = "NewReader () ?m [''cat'']"
  let ?wr = "NewWriter () ?m [''cat'']"
  note inst = unused_Close_no_op [of "()" ?m "[''cat'']" ?rd ?wr]
  from inst have a: "\<not> r_started ?rd" and b: "\<not> w_started ?wr"
    by blast+
  with inst have
    "fst (reader_Close ?rd) = None" "r (snd (reader_Close ?rd)) = r ?rd"
    "r_calls (snd (reader_Close ?rd)) = r_calls ?rd" "canceled (snd (reader_Close ?rd)) = canceled ?rd"
    "fst (writer_Close ?wr) = Returns None" "w (snd (writer_Close ?wr)) = w ?wr"
    "w_calls (snd (writer_Close ?wr)) = w_calls ?wr"
    by blast+
  moreover have "r ?rd = tracker None None" "r_calls ?rd = []" "\<not> canceled ?rd"
    "w ?wr = WriteBuffer (tracker None None)" "w_calls ?wr = []"
    by (simp_all add: test_machine_def NewReader_def NewWriter_def is_WriteBuffer_def tracker_def)
  ultimately show ?thesis using a b by simp
qed

text \<open>
  Claim C7. In the state a Close leaves, whatever the state before it: a Read of the
  Reader and a Write of the Writer return no bytes and \<^verbatim>\<open>ErrClosed\<close>, a further Close
  returns nil, and none of them changes the state, so the same holds for every later
  call.
\<close>

theorem closed_wrappers:
  "reader_Read (snd (reader_Close rd)) = (([], Some ErrClosed), snd (reader_Close rd))
   \<and> reader_Close (snd (reader_Close rd)) = (None, snd (reader_Close rd))
   \<and> writer_Write (snd (writer_Close wr)) p = ((0, Some ErrClosed), snd (writer_Close wr))
   \<and> writer_Close (snd (writer_Close wr)) = (Returns None, snd (writer_Close wr))"
proof -
  have "r_closed (snd (reader_Close rd))" by (rule reader_Close_closed)
  moreover have "w_closed (snd (writer_Close wr))" by (rule writer_Close_closed)
  ultimately show ?thesis
    by (simp add: reader_Read_def reader_Close_def writer_Write_def writer_Close_def)
qed

text \<open>
  Claim C8, as stated. Every Write of a Writer over a unit without write capability would
  return \<^verbatim>\<open>ErrReadOnly\<close>. After Close the closed flag is tested first, and the Write returns
  \<^verbatim>\<open>ErrClosed\<close>.
\<close>

theorem closed_read_only_writer_counterexample:
  "\<not> is_WriteBuffer (Command (test_machine (strings_NewReader ''data'')) () [])
   \<and> fst (writer_Write
            (snd (writer_Close (NewWriter () (test_machine (strings_NewReader ''data'')) [])))
            ''more'') = (0, Some ErrClosed)
   \<and> ErrClosed \<noteq> ErrReadOnly"
  by (simp add: test_machine_def strings_NewReader_def is_WriteBuffer_def NewWriter_def writer_Close_def
      writer_Write_def ErrClosed_def ErrReadOnly_def)

text \<open>
  Claim C8, amended. \<^verbatim>\<open>NewWriter\<close> over a unit that is no \<^verbatim>\<open>WriteBuffer\<close> stores the unit
  inside a \<^verbatim>\<open>readOnlyBuffer\<close> at construction, and every Write made before a Close returns
  no bytes and \<^verbatim>\<open>ErrReadOnly\<close>; a Write after Close returns \<^verbatim>\<open>ErrClosed\<close>. A Write of a Stream
  over such a unit returns \<^verbatim>\<open>ErrReadOnly\<close> and leaves the Stream as it was: the capability
  is looked up in each call.
\<close>

theorem read_only_unit_Write:
  "(\<not> is_WriteBuffer (Command mach ctx args) \<longrightarrow>
      w (NewWriter ctx mach args) = readOnlyBuffer (Command mach ctx args)
      \<and> writer_Writes (NewWriter ctx mach args) ps = replicate (length ps) (0, Some ErrReadOnly))
   \<and> (w wr = readOnlyBuffer b \<and> \<not> w_closed wr \<longrightarrow>
        fst (writer_Write wr p) = (0, Some ErrReadOnly))
   \<and> (w_closed wr \<longrightarrow> writer_Write wr p = ((0, Some ErrClosed), wr))
   \<and> (\<not> is_WriteBuffer (buf s) \<longrightarrow> stream_Write s p = ((0, Some ErrReadOnly), s))"
proof -
  have "w (NewWriter ctx mach args) = readOnlyBuffer (Command mach ctx args)
        \<and> writer_Writes (NewWriter ctx mach args) ps = replicate (length ps) (0, Some ErrReadOnly)"
    if ro: "\<not> is_WriteBuffer (Command mach ctx args)"
  proof -
    from ro have w: "w (NewWriter ctx mach args) = readOnlyBuffer (Command mach ctx args)"
      by (simp add: NewWriter_def)
    have "\<not> w_closed (NewWriter ctx mach args)"
      by (simp add: NewWriter_def Let_def)
    with w show ?thesis
      by (simp add: writer_Writes_readOnly)
  qed
  moreover have "fst (writer_Write wr p) = (0, Some ErrReadOnly)"
    if "w wr = readOnlyBuffer b \<and> \<not> w_closed wr"
    using that writer_Write_readOnly [of wr b p] by simp
  moreover have "writer_Write wr p = ((0, Some ErrClosed), wr)" if "w_closed wr"
    using that by (simp add: writer_Write_def)
  moreover have "stream_Write s p = ((0, Some ErrReadOnly), s)" if "\<not> is_WriteBuffer (buf s)"
    using that by (simp add: stream_Write_def)
  ultimately show ?thesis by blast
qed

theorem read_only_unit_Write_witness:
  "\<not> is_WriteBuffer (Command (test_machine (strings_NewReader ''data'')) () [''cat''])
   \<and> w (NewWriter () (test_machine (strings_NewReader ''data'')) [''cat''])
       = readOnlyBuffer (strings_NewReader ''data'')
   \<and> writer_Writes (NewWriter () (test_machine (strings_NewReader ''data'')) [''cat''])
         [''a'', ''bc'', ''def'']
       = [(0, Some ErrReadOnly), (0, Some ErrReadOnly), (0, Some ErrReadOnly)]
   \<and> \<not> is_WriteBuffer (buf (NewStream () (test_machine (strings_NewReader ''data'')) [''cat'']))
   \<and> fst (stream_Write (NewStream () (test_machine (strings_NewReader ''data'')) [''cat'']) ''a'')
       = (0, Some ErrReadOnly)"
proof -
  let ?m = "test_machine (strings_NewReader ''data'')"
  let ?s = "NewStream () ?m [''cat'']"
  have ro: "\<not> is_WriteBuffer (Command ?m () [''cat''])"
    by (simp add: test_machine_def is_WriteBuffer_def strings_NewReader_def)
  have ros: "\<not> is_WriteBuffer (buf ?s)"
    by (simp add: test_machine_def NewStream_def is_WriteBuffer_def strings_NewReader_def)
  note inst = read_only_unit_Write [of ?m "()" "[''cat'']" "[''a'', ''bc'', ''def'']" _ _ _ ?s]
  from inst ro have "w (NewWriter () ?m [''cat'']) = readOnlyBuffer (Command ?m () [''cat''])"
    and "writer_Writes (NewWriter () ?m [''cat'']) [''a'', ''bc'', ''def'']
           = replicate (length [''a'', ''bc'', ''def'']) (0, Some ErrReadOnly)"
    by blast+
  moreover from inst [of _ _ "''a''"] ros have "stream_Write ?s ''a'' = ((0, Some ErrReadOnly), ?s)"
    by blast
  ultimately show ?thesis using ro ros
    by (simp add: numeral_3_eq_3 test_machine_def)
qed

text \<open>
  Claim C9. After \<^verbatim>\<open>WithEnv\<close> with \<open>A=1\<close> and then with \<open>A=2\<close>, \<open>B=3\<close>, on any context, the
  environment reads \<open>A\<close> as 2 and \<open>B\<close> as 3; in general a key of the new map reads as its
  new value and any other key as before. \<^verbatim>\<open>WithoutEnv\<close> of that context has a nil
  environment, in which no key is found, and keeps the rest of the context.
\<close>

theorem WithEnv_WithoutEnv_round_trip:
  "lookup (Envs (WithEnv (WithEnv ctx (Some [''A'' \<mapsto> ''1''])) (Some [''A'' \<mapsto> ''2'', ''B'' \<mapsto> ''3'']))) ''A'' = Some ''2''
   \<and> lookup (Envs (WithEnv (WithEnv ctx (Some [''A'' \<mapsto> ''1''])) (Some [''A'' \<mapsto> ''2'', ''B'' \<mapsto> ''3'']))) ''B'' = Some ''3''
   \<and> lookup (Envs (WithEnv ctx env)) key =
       (case lookup env key of Some v \<Rightarrow> Some v | None \<Rightarrow> lookup (Envs ctx) key)
   \<and> Envs (WithoutEnv (WithEnv (WithEnv ctx (Some [''A'' \<mapsto> ''1''])) (Some [''A'' \<mapsto> ''2'', ''B'' \<mapsto> ''3'']))) = None
   \<and> lookup (Envs (WithoutEnv (WithEnv (WithEnv ctx (Some [''A'' \<mapsto> ''1''])) (Some [''A'' \<mapsto> ''2'', ''B'' \<mapsto> ''3''])))) key = None
   \<and> other (WithoutEnv (WithEnv (WithEnv ctx (Some [''A'' \<mapsto> ''1''])) (Some [''A'' \<mapsto> ''2'', ''B'' \<mapsto> ''3'']))) = other ctx"
  by (simp add: lookup_WithEnv) (simp add: lookup_def Envs_def WithEnv_def WithoutEnv_def)

text \<open>
  Claim C10. With no arguments, a router with or without fallback returns \<^verbatim>\<open>Fail\<close> of the
  plain error \<open>no command specified\<close>: its Read fails with that error, no \<^verbatim>\<open>*Error\<close> is in
  its chain, \<^verbatim>\<open>NotFound\<close> rejects it, and \<^verbatim>\<open>probeRead\<close> returns it from the router itself,
  although the router has a layer below.
\<close>

theorem Sh_no_command:
  "Sh_Command sh ctx [] = Fail (ErrorString ''no command specified'')
   \<and> Sh_command sh fb ctx [] = Fail (ErrorString ''no command specified'')
   \<and> fst (Buffer_Read (Sh_Command sh ctx [])) = ([], Some (ErrorString ''no command specified''))
   \<and> errors_As (ErrorString ''no command specified'') = None
   \<and> \<not> NotFound (Some (ErrorString ''no command specified''))
   \<and> Read ctx (ShMachine sh) [] = Some ([], Some (ErrorString ''no command specified''))
   \<and> as_Unsheller (ShMachine sh) = Some (m sh)
   \<and> probeRead ctx (ShMachine sh) [] = Some ([], Some (ErrorString ''no command specified''))"
proof -
  let ?e = "ErrorString ''no command specified''"
  have c: "Sh_Command sh ctx [] = Fail ?e" and c': "Sh_command sh fb ctx [] = Fail ?e"
    by (cases sh; simp)+
  have nf: "\<not> NotFound (Some ?e)"
    by (simp add: NotFound_def)
  from c have rd: "Read ctx (ShMachine sh) [] = Some ([], Some ?e)"
    by (intro Read_Fail) (simp_all add: EOF_def)
  from rd nf have "probeRead ctx (ShMachine sh) [] = Some ([], Some ?e)"
    by (rule probeRead_done)
  with c c' nf rd show ?thesis
    by (simp add: Sh_Unshell_def)
qed

end
